theory Spec2Isabelle
  imports Main "HOL-Library.Word"
begin

section \<open>The bifrost bridge: factory and S3 adapter\<close>

text \<open>
  A shallow embedding of \<^verbatim>\<open>NewRainbowBridge\<close> with its three adapter constructors
  (package \<^verbatim>\<open>bifrost\<close>) and of the methods of \<^verbatim>\<open>SimpleStorageService\<close>
  (package \<^verbatim>\<open>s3\<close>).

  Go strings are byte strings (\<^typ>\<open>string\<close>). A pointer that may be nil is an
  \<^typ>\<open>'a option\<close>. A function returning \<^verbatim>\<open>(value, error)\<close> with exactly one of
  the two non-nil returns a sum, \<open>Inl\<close> being the error. Everything the code asks of
  the operating system or of a vendor SDK is answered by a \<open>world\<close> record, and every
  such call is written to a trace of events, in the order the code makes them.
  Package-level declarations that the code reads but that are declared elsewhere
  are the fields of a \<open>pkg\<close> record, or are modelled from the spec where the spec
  gives their value.
\<close>

subsection \<open>Errors\<close>

text \<open>
  The kind codes of \<^verbatim>\<open>shared/errors\<close> that the code uses. Their declaration is
  not part of the sources; they are taken to be four distinct constants.
\<close>

datatype ErrorCode = ErrBadRequest | ErrUnauthorized | ErrClientError | ErrFileOperationFailed

text \<open>
  A Go \<^verbatim>\<open>error\<close> value: one made by \<^verbatim>\<open>fmt.Errorf\<close>, one returned by the \<^verbatim>\<open>os\<close>
  package (operation, path, error number), or one returned by a vendor SDK.
\<close>

datatype Errno = ENOENT | EACCES | ENOTDIR | EIO

datatype error = Errorf string | PathError string string Errno | SDKError string

record BifrostError =
  Err :: error
  ErrorCode :: ErrorCode

text \<open>\<^verbatim>\<open>os.IsNotExist\<close>: true for an error of the \<^verbatim>\<open>os\<close> package whose error number
  is \<^verbatim>\<open>ENOENT\<close>, false for nil and for every other error.\<close>

fun IsNotExist :: "error option \<Rightarrow> bool" where
  "IsNotExist (Some (PathError _ _ ENOENT)) = True"
| "IsNotExist _ = False"

subsection \<open>Strings: \<^verbatim>\<open>strings.ToLower\<close> and \<^verbatim>\<open>fmt.Sprintf\<close>\<close>

text \<open>
  \<^verbatim>\<open>strings.ToLower\<close> on bytes: the letters A to Z are mapped to a to z and every
  other byte is kept. This is what Go computes on ASCII strings; the statements
  below either use \<open>ToLower\<close> at ASCII identifiers or do not depend on its value.
\<close>

definition lower :: "char \<Rightarrow> char" where
  "lower c = (let n = (of_char c :: nat) in if 65 \<le> n \<and> n \<le> 90 then char_of (n + 32) else c)"

definition ToLower :: "string \<Rightarrow> string" where
  "ToLower s = map lower s"

text \<open>
  \<^verbatim>\<open>fmt.Sprintf\<close> for the formats of this program, whose only verb is \<^verbatim>\<open>%s\<close> and
  whose operands are strings: each \<^verbatim>\<open>%s\<close> is replaced by the next operand, and one
  without an operand by Go's \<^verbatim>\<open>%!s(MISSING)\<close>.
\<close>

fun Sprintf :: "string \<Rightarrow> string list \<Rightarrow> string" where
  "Sprintf [] args = []"
| "Sprintf (c # d # cs) args =
     (if c = CHR ''%'' \<and> d = CHR ''s''
      then (case args of
              [] \<Rightarrow> ''%!s(MISSING)'' @ Sprintf cs []
            | a # as \<Rightarrow> a @ Sprintf cs as)
      else c # Sprintf (d # cs) args)"
| "Sprintf [c] args = [c]"

subsection \<open>Configuration and handles\<close>

text \<open>
  \<^verbatim>\<open>BridgeConfig\<close>, with the fields the code reads or writes. The timeout is a
  64-bit signed integer.
\<close>

record BridgeConfig =
  Provider :: string
  DefaultBucket :: string
  Region :: string
  AccessKey :: string
  SecretKey :: string
  CredentialsFile :: string
  Project :: string
  DefaultTimeout :: "64 word"
  EnableDebug :: bool
  PublicRead :: bool
  UseAsync :: bool
  PinataJWT :: string

text \<open>Opaque values handed out by the vendor SDKs and by the operating system.\<close>

datatype aws_Config = AwsConfig nat

datatype s3_Client = NewFromConfig aws_Config

datatype storage_Client = StorageClient nat

datatype os_File = Fd nat

record SimpleStorageService =
  Provider :: string
  DefaultBucket :: string
  Region :: string
  AccessKey :: string
  SecretKey :: string
  DefaultTimeout :: "64 word"
  EnableDebug :: bool
  PublicRead :: bool
  UseAsync :: bool
  Client :: "s3_Client option"

record GoogleCloudStorage =
  Provider :: string
  DefaultBucket :: string
  CredentialsFile :: string
  Project :: string
  DefaultTimeout :: "64 word"
  Client :: "storage_Client option"
  EnableDebug :: bool
  PublicRead :: bool
  UseAsync :: bool

record PinataIPFSStorage =
  PinataJWT :: string
  Provider :: string
  DefaultBucket :: string
  CredentialsFile :: string
  Project :: string
  DefaultTimeout :: "64 word"
  EnableDebug :: bool
  PublicRead :: bool
  UseAsync :: bool

text \<open>The interface \<^verbatim>\<open>RainbowBridge\<close>: one of the three adapters.\<close>

datatype RainbowBridge =
  S3 SimpleStorageService
| GCS GoogleCloudStorage
| Pinata PinataIPFSStorage

subsection \<open>Requests, results and option values\<close>

text \<open>
  \<^verbatim>\<open>ObjectCannedACL\<close> is a string type of the AWS SDK; the empty string is its zero
  value (no grant requested).
\<close>

type_synonym ObjectCannedACL = string

definition ObjectCannedACLPrivate :: ObjectCannedACL where
  "ObjectCannedACLPrivate = ''private''"

definition ObjectCannedACLPublicRead :: ObjectCannedACL where
  "ObjectCannedACLPublicRead = ''public-read''"

record PutObjectInput =
  Bucket :: string
  Key :: string
  Body :: os_File
  ACL :: ObjectCannedACL
  ContentType :: "string option"
  Metadata :: "string \<rightharpoonup> string"

record HeadObjectInput =
  Bucket :: string
  Key :: string

record HeadObjectOutput =
  ContentLength :: "64 word"

record UploadedFile =
  Name :: string
  Bucket :: string
  Path :: string
  Preview :: string
  Size :: "64 word"
  ProviderObject :: HeadObjectOutput

text \<open>
  A value of type \<^verbatim>\<open>interface{}\<close> in an options map: a string, a
  \<^verbatim>\<open>map[string]string\<close>, or a value of another dynamic type.
\<close>

datatype any = Str string | StrMap "string \<rightharpoonup> string" | IntVal int | BoolVal bool | NilVal

text \<open>
  A \<^verbatim>\<open>context.Context\<close>: the background context, or one with a timeout in
  nanoseconds (a \<^verbatim>\<open>time.Duration\<close>, 64 bits).
\<close>

datatype Context = Background | WithTimeout "64 word"

subsection \<open>Package-level declarations and the outside world\<close>

text \<open>
  Declarations the code reads that are not part of the sources and whose values
  the spec does not give: the expected type name, the registry of providers
  (identifier to display name), and the three recognised option keys.
\<close>

record pkg =
  bridgeConfigType :: string
  providers :: "string \<rightharpoonup> string"
  OptACL :: string
  OptContentType :: string
  OptMetadata :: string

text \<open>Modelled from the spec: the two access-control option values of
  \<^verbatim>\<open>shared/config\<close>, which the spec gives as \<^verbatim>\<open>public-read\<close> and \<^verbatim>\<open>private\<close>.\<close>

definition ACLPublicRead :: string where
  "ACLPublicRead = ''public-read''"

definition ACLPrivate :: string where
  "ACLPrivate = ''private''"

text \<open>Modelled from the spec: the preview URL format of \<^verbatim>\<open>shared/config\<close>, which the
  spec gives as \<^verbatim>\<open>https://{bucket}.s3.{region}.amazonaws.com/{key}\<close>.\<close>

definition URLSimpleStorageService :: string where
  "URLSimpleStorageService = ''https://%s.s3.%s.amazonaws.com/%s''"

text \<open>Reading a Go map at a key: the zero value when the key is absent.\<close>

definition index :: "(string \<rightharpoonup> string) \<Rightarrow> string \<Rightarrow> string" where
  "index m k = (case m k of None \<Rightarrow> [] | Some v \<Rightarrow> v)"

datatype LoadOption =
  WithCredentialsProvider string string string
| WithRegion string

datatype ClientOption = WithCredentialsFile string

text \<open>
  What the outside answers: the AWS and Google SDK constructors, the file system,
  and the S3 service behind a client.
\<close>

record world =
  LoadDefaultConfig :: "LoadOption list \<Rightarrow> error + aws_Config"
  NewClient :: "ClientOption list \<Rightarrow> error + storage_Client"
  Stat :: "string \<Rightarrow> error option"
  Open :: "string \<Rightarrow> error + os_File"
  PutObject :: "s3_Client \<Rightarrow> Context \<Rightarrow> PutObjectInput \<Rightarrow> error + unit"
  HeadObject :: "s3_Client \<Rightarrow> Context \<Rightarrow> HeadObjectInput \<Rightarrow> error + HeadObjectOutput"

datatype event =
  LogPrintf string
| CallLoadDefaultConfig "LoadOption list"
| CallNewClient "ClientOption list"
| OsStat string
| OsOpen string
| FileClose os_File
| CallPutObject s3_Client Context PutObjectInput
| CallHeadObject s3_Client Context HeadObjectInput


subsection \<open>The factory\<close>

text \<open>
  \<^verbatim>\<open>reflect.TypeOf(bc).Elem()\<close> for \<^verbatim>\<open>bc\<close> of static type \<^verbatim>\<open>*BridgeConfig\<close>: the
  struct type named \<^verbatim>\<open>BridgeConfig\<close>, whatever the value of \<^verbatim>\<open>bc\<close>.
\<close>

datatype Kind = Struct | Ptr | Invalid

fun KindString :: "Kind \<Rightarrow> string" where
  "KindString Struct = ''struct''"
| "KindString Ptr = ''ptr''"
| "KindString Invalid = ''invalid''"

record Type =
  Kind :: Kind
  Name :: string

definition TypeOf_Elem :: Type where
  "TypeOf_Elem = \<lparr>Kind = Struct, Name = ''BridgeConfig''\<rparr>"

definition BadRequest :: "string \<Rightarrow> BifrostError" where
  "BadRequest msg = \<lparr>Err = Errorf msg, ErrorCode = ErrBadRequest\<rparr>"

definition Unauthorized :: "error \<Rightarrow> BifrostError" where
  "Unauthorized err = \<lparr>Err = err, ErrorCode = ErrUnauthorized\<rparr>"

definition FileOperationFailed :: "error \<Rightarrow> BifrostError" where
  "FileOperationFailed err = \<lparr>Err = err, ErrorCode = ErrFileOperationFailed\<rparr>"

text \<open>\<^verbatim>\<open>newPinataIPFS\<close>: no call leaves the process.\<close>

definition newPinataIPFS ::
  "pkg \<Rightarrow> BridgeConfig \<Rightarrow> (BifrostError + RainbowBridge) \<times> event list" where
  "newPinataIPFS pk g =
     (if BridgeConfig.PinataJWT g = []
      then (Inl (Unauthorized (Errorf ''jwt is required for authentication'')), [])
      else (Inr (Pinata
             \<lparr>PinataIPFSStorage.PinataJWT = BridgeConfig.PinataJWT g,
              PinataIPFSStorage.Provider = index (providers pk) (ToLower (BridgeConfig.Provider g)),
              PinataIPFSStorage.DefaultBucket = BridgeConfig.DefaultBucket g,
              PinataIPFSStorage.CredentialsFile = BridgeConfig.CredentialsFile g,
              PinataIPFSStorage.Project = BridgeConfig.Project g,
              PinataIPFSStorage.DefaultTimeout = BridgeConfig.DefaultTimeout g,
              PinataIPFSStorage.EnableDebug = BridgeConfig.EnableDebug g,
              PinataIPFSStorage.PublicRead = BridgeConfig.PublicRead g,
              PinataIPFSStorage.UseAsync = BridgeConfig.UseAsync g\<rparr>), []))"

text \<open>\<^verbatim>\<open>newGoogleCloudStorage\<close>: with a credentials file when one is named, without
  otherwise.\<close>

definition newGoogleCloudStorage ::
  "pkg \<Rightarrow> world \<Rightarrow> BridgeConfig \<Rightarrow> (BifrostError + RainbowBridge) \<times> event list" where
  "newGoogleCloudStorage pk w g =
     (let opts = (if BridgeConfig.CredentialsFile g \<noteq> []
                  then [WithCredentialsFile (BridgeConfig.CredentialsFile g)] else [])
      in case NewClient w opts of
           Inl err \<Rightarrow> (Inl (Unauthorized err), [CallNewClient opts])
         | Inr client \<Rightarrow>
             (Inr (GCS
                \<lparr>GoogleCloudStorage.Provider = index (providers pk) (ToLower (BridgeConfig.Provider g)),
                 GoogleCloudStorage.DefaultBucket = BridgeConfig.DefaultBucket g,
                 GoogleCloudStorage.CredentialsFile = BridgeConfig.CredentialsFile g,
                 GoogleCloudStorage.Project = BridgeConfig.Project g,
                 GoogleCloudStorage.DefaultTimeout = BridgeConfig.DefaultTimeout g,
                 GoogleCloudStorage.Client = Some client,
                 GoogleCloudStorage.EnableDebug = BridgeConfig.EnableDebug g,
                 GoogleCloudStorage.PublicRead = BridgeConfig.PublicRead g,
                 GoogleCloudStorage.UseAsync = BridgeConfig.UseAsync g\<rparr>), [CallNewClient opts]))"

text \<open>
  \<^verbatim>\<open>newSimpleStorageService\<close>: static credentials and the region when both keys
  are given, the shared configuration otherwise. The struct literal names seven
  fields; \<^verbatim>\<open>DefaultTimeout\<close>, \<^verbatim>\<open>EnableDebug\<close> and \<^verbatim>\<open>UseAsync\<close> are not among them
  and keep their zero values.
\<close>

definition newSimpleStorageService ::
  "pkg \<Rightarrow> world \<Rightarrow> BridgeConfig \<Rightarrow> (BifrostError + RainbowBridge) \<times> event list" where
  "newSimpleStorageService pk w g =
     (let opts = (if BridgeConfig.AccessKey g \<noteq> [] \<and> BridgeConfig.SecretKey g \<noteq> []
                  then [WithCredentialsProvider (BridgeConfig.AccessKey g) (BridgeConfig.SecretKey g) [],
                        WithRegion (BridgeConfig.Region g)]
                  else [])
      in case LoadDefaultConfig w opts of
           Inl err \<Rightarrow> (Inl (Unauthorized err), [CallLoadDefaultConfig opts])
         | Inr cfg \<Rightarrow>
             (Inr (S3
                \<lparr>SimpleStorageService.Provider = index (providers pk) (ToLower (BridgeConfig.Provider g)),
                 SimpleStorageService.DefaultBucket = BridgeConfig.DefaultBucket g,
                 SimpleStorageService.Region = BridgeConfig.Region g,
                 SimpleStorageService.AccessKey = BridgeConfig.AccessKey g,
                 SimpleStorageService.SecretKey = BridgeConfig.SecretKey g,
                 SimpleStorageService.DefaultTimeout = 0,
                 SimpleStorageService.EnableDebug = False,
                 SimpleStorageService.PublicRead = BridgeConfig.PublicRead g,
                 SimpleStorageService.UseAsync = False,
                 SimpleStorageService.Client = Some (NewFromConfig cfg)\<rparr>),
              [CallLoadDefaultConfig opts]))"

text \<open>
  \<^verbatim>\<open>NewRainbowBridge\<close>. The registry is asked about the lower-cased identifier;
  the final switch compares the identifier as given.
\<close>

definition NewRainbowBridge ::
  "pkg \<Rightarrow> world \<Rightarrow> BridgeConfig option \<Rightarrow> (BifrostError + RainbowBridge) \<times> event list" where
  "NewRainbowBridge pk w bc' =
     (case bc' of
        None \<Rightarrow> (Inl (BadRequest ''config is nil''), [])
      | Some bc \<Rightarrow>
          let t = TypeOf_Elem in
          if Type.Kind t \<noteq> Struct
          then (Inl (BadRequest (Sprintf ''invalid config type: %s'' [KindString (Type.Kind t)])), [])
          else if Type.Name t \<noteq> bridgeConfigType pk
          then (Inl (BadRequest (Sprintf ''invalid config type: %s'' [Type.Name t])), [])
          else if BridgeConfig.Provider bc = []
          then (Inl (BadRequest ''no provider specified''), [])
          else if providers pk (ToLower (BridgeConfig.Provider bc)) = None
          then (Inl (BadRequest (Sprintf ''invalid provider: %s'' [BridgeConfig.Provider bc])), [])
          else
            let warned =
              (if BridgeConfig.DefaultBucket bc = [] \<and> BridgeConfig.EnableDebug bc
               then [LogPrintf (Sprintf
                 ''No bucket specified for provider %s. This might cause errors or require you to specify a bucket for each operation.''
                 [index (providers pk) (ToLower (BridgeConfig.Provider bc))])]
               else [])
            in
            if BridgeConfig.Provider bc = ''s3''
            then (case newSimpleStorageService pk w bc of (r, evs) \<Rightarrow> (r, warned @ evs))
            else if BridgeConfig.Provider bc = ''gcs''
            then (case newGoogleCloudStorage pk w bc of (r, evs) \<Rightarrow> (r, warned @ evs))
            else if BridgeConfig.Provider bc = ''pinata''
            then (case newPinataIPFS pk bc of (r, evs) \<Rightarrow> (r, warned @ evs))
            else (Inl (BadRequest (Sprintf ''invalid provider: %s'' [BridgeConfig.Provider bc])), warned))"

subsection \<open>The S3 adapter\<close>

definition IsConnected :: "SimpleStorageService \<Rightarrow> bool" where
  "IsConnected s = (SimpleStorageService.Client s \<noteq> None)"

text \<open>\<^verbatim>\<open>Disconnect\<close> writes nil to the client field and returns a nil error.\<close>

definition Disconnect :: "SimpleStorageService \<Rightarrow> SimpleStorageService \<times> error option" where
  "Disconnect s = (s\<lparr>SimpleStorageService.Client := None\<rparr>, None)"

text \<open>\<^verbatim>\<open>Config\<close> names eight fields of the snapshot; the others keep their zero
  values.\<close>

definition Config :: "SimpleStorageService \<Rightarrow> BridgeConfig" where
  "Config s =
     \<lparr>BridgeConfig.Provider = SimpleStorageService.Provider s,
      BridgeConfig.DefaultBucket = SimpleStorageService.DefaultBucket s,
      BridgeConfig.Region = SimpleStorageService.Region s,
      BridgeConfig.AccessKey = SimpleStorageService.AccessKey s,
      BridgeConfig.SecretKey = SimpleStorageService.SecretKey s,
      BridgeConfig.CredentialsFile = [],
      BridgeConfig.Project = [],
      BridgeConfig.DefaultTimeout = SimpleStorageService.DefaultTimeout s,
      BridgeConfig.EnableDebug = SimpleStorageService.EnableDebug s,
      BridgeConfig.PublicRead = False,
      BridgeConfig.UseAsync = SimpleStorageService.UseAsync s,
      BridgeConfig.PinataJWT = []\<rparr>"

text \<open>\<^verbatim>\<open>UploadFolder\<close> returns a nil slice and a nil error.\<close>

definition UploadFolder ::
  "SimpleStorageService \<Rightarrow> string \<Rightarrow> (string \<times> any) list \<Rightarrow> UploadedFile list \<times> BifrostError option" where
  "UploadFolder s path options = ([], None)"

text \<open>
  The context of an upload: bounded when the timeout is positive (a signed
  comparison); the duration is the timeout times \<^verbatim>\<open>time.Second\<close>, in 64 bits.
\<close>

definition uploadContext :: "SimpleStorageService \<Rightarrow> Context" where
  "uploadContext s =
     (if 0 < sint (SimpleStorageService.DefaultTimeout s)
      then WithTimeout (SimpleStorageService.DefaultTimeout s * 1000000000)
      else Background)"

text \<open>
  One round of the loop over the options map. An options map is given as the
  list of its entries in the order the loop visits them; a Go map holds each key
  once.
\<close>

definition applyOption :: "pkg \<Rightarrow> string \<times> any \<Rightarrow> PutObjectInput \<Rightarrow> PutObjectInput" where
  "applyOption pk kv params =
     (case kv of (k, v) \<Rightarrow>
        if k = OptACL pk then
          (case v of
             Str v' \<Rightarrow>
               if v' = ACLPublicRead then params\<lparr>ACL := ObjectCannedACLPublicRead\<rparr>
               else if v' = ACLPrivate then params\<lparr>ACL := ObjectCannedACLPrivate\<rparr>
               else params
           | _ \<Rightarrow> params)
        else if k = OptContentType pk then
          (case v of Str v' \<Rightarrow> params\<lparr>ContentType := Some v'\<rparr> | _ \<Rightarrow> params)
        else if k = OptMetadata pk then
          (case v of StrMap m \<Rightarrow> params\<lparr>Metadata := m\<rparr> | _ \<Rightarrow> params)
        else params)"

text \<open>The request of an upload: the handle's bucket, the key, the file, the handle's
  public-read default, then the options.\<close>

definition putObjectInput ::
  "pkg \<Rightarrow> SimpleStorageService \<Rightarrow> os_File \<Rightarrow> string \<Rightarrow> (string \<times> any) list \<Rightarrow> PutObjectInput" where
  "putObjectInput pk s file filename options =
     (let params = \<lparr>PutObjectInput.Bucket = SimpleStorageService.DefaultBucket s,
                    PutObjectInput.Key = filename, Body = file, ACL = [],
                    ContentType = None, Metadata = Map.empty\<rparr>;
          params = (if SimpleStorageService.PublicRead s
                    then params\<lparr>ACL := ObjectCannedACLPublicRead\<rparr> else params)
      in fold (applyOption pk) options params)"

text \<open>
  \<^verbatim>\<open>UploadFile\<close>. The deferred \<^verbatim>\<open>file.Close()\<close> is the last event of every path
  that opened the file.
\<close>

definition UploadFile ::
  "pkg \<Rightarrow> world \<Rightarrow> SimpleStorageService \<Rightarrow> string \<Rightarrow> string \<Rightarrow> (string \<times> any) list
     \<Rightarrow> (BifrostError + UploadedFile) \<times> event list" where
  "UploadFile pk w s path filename options =
     (if \<not> IsConnected s
      then (Inl \<lparr>Err = Errorf ''no active S3 client'', ErrorCode = ErrClientError\<rparr>, [])
      else
        let client = the (SimpleStorageService.Client s);
            ctx = uploadContext s
        in
        if IsNotExist (Stat w path)
        then (Inl (BadRequest (Sprintf ''file does not exist: %s'' [path])), [OsStat path])
        else
          case Open w path of
            Inl err \<Rightarrow> (Inl (FileOperationFailed err), [OsStat path, OsOpen path])
          | Inr file \<Rightarrow>
              let params = putObjectInput pk s file filename options in
              case PutObject w client ctx params of
                Inl err \<Rightarrow>
                  (Inl (FileOperationFailed err),
                   [OsStat path, OsOpen path, CallPutObject client ctx params, FileClose file])
              | Inr _ \<Rightarrow>
                  let input = \<lparr>HeadObjectInput.Bucket = SimpleStorageService.DefaultBucket s,
                               HeadObjectInput.Key = filename\<rparr> in
                  case HeadObject w client ctx input of
                    Inl err \<Rightarrow>
                      (Inl (FileOperationFailed err),
                       [OsStat path, OsOpen path, CallPutObject client ctx params,
                        CallHeadObject client ctx input, FileClose file])
                  | Inr obj \<Rightarrow>
                      (Inr \<lparr>UploadedFile.Name = filename,
                            UploadedFile.Bucket = SimpleStorageService.DefaultBucket s,
                            Path = path,
                            Preview = Sprintf URLSimpleStorageService
                              [SimpleStorageService.DefaultBucket s, SimpleStorageService.Region s, filename],
                            Size = ContentLength obj,
                            ProviderObject = obj\<rparr>,
                       [OsStat path, OsOpen path, CallPutObject client ctx params,
                        CallHeadObject client ctx input, FileClose file]))"

subsection \<open>Example values\<close>

text \<open>Modelled from the spec: a registry with the identifiers \<^verbatim>\<open>s3\<close>, \<^verbatim>\<open>gcs\<close> and
  \<^verbatim>\<open>pinata\<close> that the spec lists. The display names and the option keys, which the
  spec does not give, are example values; the general theorems below hold for
  every \<open>pkg\<close>.\<close>

definition examplePkg :: pkg where
  "examplePkg =
     \<lparr>bridgeConfigType = ''BridgeConfig'',
      providers = [''s3'' \<mapsto> ''Simple Storage Service'', ''gcs'' \<mapsto> ''Google Cloud Storage'',
                   ''pinata'' \<mapsto> ''Pinata Cloud''],
      OptACL = ''acl'', OptContentType = ''content-type'', OptMetadata = ''metadata''\<rparr>"

text \<open>
  An outside in which both SDK constructors succeed, \<^verbatim>\<open>/tmp/photo.png\<close> exists and
  opens, \<^verbatim>\<open>/tmp/locked.png\<close> exists and does not open, \<^verbatim>\<open>/root/private/photo.png\<close>
  lies in a directory that may not be searched, no other path exists, and the
  service accepts every write and reports 1024 bytes.
\<close>

definition exampleWorld :: world where
  "exampleWorld =
     \<lparr>LoadDefaultConfig = (\<lambda>opts. Inr (AwsConfig 0)),
      NewClient = (\<lambda>opts. Inr (StorageClient 0)),
      Stat = (\<lambda>p. if p = ''/tmp/photo.png'' \<or> p = ''/tmp/locked.png'' then None
                  else if p = ''/root/private/photo.png'' then Some (PathError ''stat'' p EACCES)
                  else Some (PathError ''stat'' p ENOENT)),
      Open = (\<lambda>p. if p = ''/tmp/photo.png'' then Inr (Fd 3)
                  else if p = ''/tmp/locked.png'' \<or> p = ''/root/private/photo.png''
                  then Inl (PathError ''open'' p EACCES)
                  else Inl (PathError ''open'' p ENOENT)),
      PutObject = (\<lambda>client ctx params. Inr ()),
      HeadObject = (\<lambda>client ctx input. Inr \<lparr>ContentLength = 1024\<rparr>)\<rparr>"

definition exampleConfig :: BridgeConfig where
  "exampleConfig =
     \<lparr>BridgeConfig.Provider = ''s3'', BridgeConfig.DefaultBucket = ''assets'',
      BridgeConfig.Region = ''us-east-1'', BridgeConfig.AccessKey = ''A'',
      BridgeConfig.SecretKey = ''B'', BridgeConfig.CredentialsFile = [],
      BridgeConfig.Project = [], BridgeConfig.DefaultTimeout = 30,
      BridgeConfig.EnableDebug = True, BridgeConfig.PublicRead = True,
      BridgeConfig.UseAsync = True, BridgeConfig.PinataJWT = []\<rparr>"

text \<open>The handle that \<open>NewRainbowBridge\<close> returns for \<open>exampleConfig\<close>.\<close>

definition exampleHandle :: SimpleStorageService where
  "exampleHandle =
     \<lparr>SimpleStorageService.Provider = ''Simple Storage Service'',
      SimpleStorageService.DefaultBucket = ''assets'',
      SimpleStorageService.Region = ''us-east-1'',
      SimpleStorageService.AccessKey = ''A'',
      SimpleStorageService.SecretKey = ''B'',
      SimpleStorageService.DefaultTimeout = 0,
      SimpleStorageService.EnableDebug = False,
      SimpleStorageService.PublicRead = True,
      SimpleStorageService.UseAsync = False,
      SimpleStorageService.Client = Some (NewFromConfig (AwsConfig 0))\<rparr>"

section \<open>Properties\<close>

subsection \<open>Auxiliary facts\<close>

lemma ToLower_S3: "ToLower ''S3'' = ''s3''"
  by code_simp

lemma ToLower_s3: "ToLower ''s3'' = ''s3''"
  by code_simp


lemma ToLower_azure: "ToLower ''azure'' = ''azure''"
  by code_simp

lemma Sprintf_config_type:
  "Sprintf ''invalid config type: %s'' [''BridgeConfig''] = ''invalid config type: BridgeConfig''"
  by simp

lemma Sprintf_invalid_provider:
  "Sprintf ''invalid provider: %s'' [p] = ''invalid provider: '' @ p"
  by simp

lemma Sprintf_preview:
  "Sprintf URLSimpleStorageService [b, r, k] =
     ''https://'' @ b @ ''.s3.'' @ r @ ''.amazonaws.com/'' @ k"
  by (simp add: URLSimpleStorageService_def)

text \<open>The paths through \<open>UploadFile\<close>, one lemma each.\<close>

lemma UploadFile_disconnected:
  "\<not> IsConnected s \<Longrightarrow>
   UploadFile pk w s path filename options =
     (Inl \<lparr>Err = Errorf ''no active S3 client'', ErrorCode = ErrClientError\<rparr>, [])"
  by (simp add: UploadFile_def)

lemma UploadFile_not_exist:
  "IsConnected s \<Longrightarrow> IsNotExist (Stat w path) \<Longrightarrow>
   UploadFile pk w s path filename options =
     (Inl \<lparr>Err = Errorf (''file does not exist: '' @ path), ErrorCode = ErrBadRequest\<rparr>,
      [OsStat path])"
  by (simp add: UploadFile_def BadRequest_def)

lemma UploadFile_open_failed:
  "IsConnected s \<Longrightarrow> \<not> IsNotExist (Stat w path) \<Longrightarrow> Open w path = Inl err \<Longrightarrow>
   UploadFile pk w s path filename options =
     (Inl \<lparr>Err = err, ErrorCode = ErrFileOperationFailed\<rparr>, [OsStat path, OsOpen path])"
  by (simp add: UploadFile_def FileOperationFailed_def)

lemma UploadFile_put_failed:
  "IsConnected s \<Longrightarrow> \<not> IsNotExist (Stat w path) \<Longrightarrow> Open w path = Inr file \<Longrightarrow>
   PutObject w (the (SimpleStorageService.Client s)) (uploadContext s)
     (putObjectInput pk s file filename options) = Inl err \<Longrightarrow>
   UploadFile pk w s path filename options =
     (Inl \<lparr>Err = err, ErrorCode = ErrFileOperationFailed\<rparr>,
      [OsStat path, OsOpen path,
       CallPutObject (the (SimpleStorageService.Client s)) (uploadContext s)
         (putObjectInput pk s file filename options),
       FileClose file])"
  by (simp add: UploadFile_def FileOperationFailed_def Let_def)

lemma UploadFile_head_failed:
  "IsConnected s \<Longrightarrow> \<not> IsNotExist (Stat w path) \<Longrightarrow> Open w path = Inr file \<Longrightarrow>
   PutObject w (the (SimpleStorageService.Client s)) (uploadContext s)
     (putObjectInput pk s file filename options) = Inr u \<Longrightarrow>
   HeadObject w (the (SimpleStorageService.Client s)) (uploadContext s)
     \<lparr>HeadObjectInput.Bucket = SimpleStorageService.DefaultBucket s,
      HeadObjectInput.Key = filename\<rparr> = Inl err \<Longrightarrow>
   UploadFile pk w s path filename options =
     (Inl \<lparr>Err = err, ErrorCode = ErrFileOperationFailed\<rparr>,
      [OsStat path, OsOpen path,
       CallPutObject (the (SimpleStorageService.Client s)) (uploadContext s)
         (putObjectInput pk s file filename options),
       CallHeadObject (the (SimpleStorageService.Client s)) (uploadContext s)
         \<lparr>HeadObjectInput.Bucket = SimpleStorageService.DefaultBucket s,
          HeadObjectInput.Key = filename\<rparr>,
       FileClose file])"
  by (simp add: UploadFile_def FileOperationFailed_def Let_def)

lemma UploadFile_uploaded:
  "IsConnected s \<Longrightarrow> \<not> IsNotExist (Stat w path) \<Longrightarrow> Open w path = Inr file \<Longrightarrow>
   PutObject w (the (SimpleStorageService.Client s)) (uploadContext s)
     (putObjectInput pk s file filename options) = Inr u \<Longrightarrow>
   HeadObject w (the (SimpleStorageService.Client s)) (uploadContext s)
     \<lparr>HeadObjectInput.Bucket = SimpleStorageService.DefaultBucket s,
      HeadObjectInput.Key = filename\<rparr> = Inr obj \<Longrightarrow>
   UploadFile pk w s path filename options =
     (Inr \<lparr>UploadedFile.Name = filename,
           UploadedFile.Bucket = SimpleStorageService.DefaultBucket s,
           Path = path,
           Preview = ''https://'' @ SimpleStorageService.DefaultBucket s @ ''.s3.'' @
                     SimpleStorageService.Region s @ ''.amazonaws.com/'' @ filename,
           Size = ContentLength obj,
           ProviderObject = obj\<rparr>,
      [OsStat path, OsOpen path,
       CallPutObject (the (SimpleStorageService.Client s)) (uploadContext s)
         (putObjectInput pk s file filename options),
       CallHeadObject (the (SimpleStorageService.Client s)) (uploadContext s)
         \<lparr>HeadObjectInput.Bucket = SimpleStorageService.DefaultBucket s,
          HeadObjectInput.Key = filename\<rparr>,
       FileClose file])"
  by (simp add: UploadFile_def Sprintf_preview Let_def del: Sprintf.simps)

lemma UploadFile_result_cases:
  "(\<exists>uf. fst (UploadFile pk w s path filename options) = Inr uf) \<longleftrightarrow>
     (IsConnected s \<and> \<not> IsNotExist (Stat w path) \<and>
      (\<exists>fd. Open w path = Inr fd \<and>
         PutObject w (the (SimpleStorageService.Client s)) (uploadContext s)
           (putObjectInput pk s fd filename options) = Inr () \<and>
         (\<exists>obj. HeadObject w (the (SimpleStorageService.Client s)) (uploadContext s)
            \<lparr>HeadObjectInput.Bucket = SimpleStorageService.DefaultBucket s,
             HeadObjectInput.Key = filename\<rparr> = Inr obj)))"
  by (auto simp add: UploadFile_def Let_def simp del: Sprintf.simps split: sum.splits)

text \<open>The access-control grant of the request after the loop over the options, and the
  entries that the loop passes over.\<close>

lemma ACL_applyOption:
  "ACL (applyOption pk (k, v) params) =
     (if k = OptACL pk
      then (case v of
              Str a \<Rightarrow> if a = ACLPublicRead then ObjectCannedACLPublicRead
                       else if a = ACLPrivate then ObjectCannedACLPrivate
                       else ACL params
            | _ \<Rightarrow> ACL params)
      else ACL params)"
  by (simp add: applyOption_def split: any.splits)

lemma ACL_fold_absent:
  "OptACL pk \<notin> fst ` set options \<Longrightarrow>
   ACL (fold (applyOption pk) options params) = ACL params"
proof (induction options arbitrary: params)
  case Nil
  show ?case by simp
next
  case (Cons kv options)
  obtain k v where kv: "kv = (k, v)" by (cases kv)
  from Cons.prems kv have "k \<noteq> OptACL pk" and "OptACL pk \<notin> fst ` set options"
    by auto
  then show ?case
    using Cons.IH [of "applyOption pk (k, v) params"] kv by (simp add: ACL_applyOption)
qed

lemma ACL_fold:
  "distinct (map fst options) \<Longrightarrow>
   ACL (fold (applyOption pk) options params) =
     (case map_of options (OptACL pk) of
        Some (Str a) \<Rightarrow> if a = ACLPublicRead then ObjectCannedACLPublicRead
                        else if a = ACLPrivate then ObjectCannedACLPrivate
                        else ACL params
      | _ \<Rightarrow> ACL params)"
proof (induction options arbitrary: params)
  case Nil
  show ?case by simp
next
  case (Cons kv options)
  obtain k v where kv: "kv = (k, v)" by (cases kv)
  from Cons.prems kv have notin: "k \<notin> fst ` set options" and dist: "distinct (map fst options)"
    by auto
  show ?case
  proof (cases "k = OptACL pk")
    case True
    with notin have "OptACL pk \<notin> fst ` set options" by simp
    then have "ACL (fold (applyOption pk) options (applyOption pk (k, v) params)) =
               ACL (applyOption pk (k, v) params)"
      by (rule ACL_fold_absent)
    with True kv show ?thesis
      by (simp add: ACL_applyOption split: any.splits)
  next
    case False
    then have same: "ACL (applyOption pk (k, v) params) = ACL params"
      by (simp add: ACL_applyOption)
    from False kv show ?thesis
      using Cons.IH [OF dist, of "applyOption pk (k, v) params"]
      unfolding same by simp
  qed
qed

lemma putObjectInput_ignored:
  "applyOption pk kv = (\<lambda>params. params) \<Longrightarrow>
   putObjectInput pk s fd filename (xs @ kv # ys) = putObjectInput pk s fd filename (xs @ ys)"
  by (simp add: putObjectInput_def Let_def)

lemma UploadFile_cong_options:
  "(\<And>fd. putObjectInput pk s fd filename options = putObjectInput pk s fd filename options') \<Longrightarrow>
   UploadFile pk w s path filename options = UploadFile pk w s path filename options'"
  by (auto simp add: UploadFile_def Let_def simp del: Sprintf.simps split: sum.splits)

lemma applyOption_ignored:
  "distinct [OptACL pk, OptContentType pk, OptMetadata pk] \<Longrightarrow>
   k \<notin> {OptACL pk, OptContentType pk, OptMetadata pk} \<or>
   (k = OptACL pk \<or> k = OptContentType pk) \<and> (\<forall>a. v \<noteq> Str a) \<or>
   k = OptMetadata pk \<and> (\<forall>m. v \<noteq> StrMap m) \<Longrightarrow>
   applyOption pk (k, v) params = params"
  by (cases v) (auto simp add: applyOption_def)

subsection \<open>Construction\<close>

text \<open>
  C1. The claim: an identifier that matches a supported one without regard to
  case passes the registry check and is then dispatched to its adapter, never
  rejected by the final switch. The code lower-cases the identifier for the
  registry and compares it as given in the switch. With the identifier \<^verbatim>\<open>S3\<close>
  the registry check succeeds and the switch returns \<^verbatim>\<open>BadRequest\<close>.
\<close>

theorem C1_mixed_case_identifier_rejected:
  "providers examplePkg (ToLower ''S3'') = Some ''Simple Storage Service'' \<and>
   NewRainbowBridge examplePkg exampleWorld
       (Some (exampleConfig\<lparr>BridgeConfig.Provider := ''S3''\<rparr>))
     = (Inl \<lparr>Err = Errorf ''invalid provider: S3'', ErrorCode = ErrBadRequest\<rparr>, [])"
  by (simp add: NewRainbowBridge_def examplePkg_def exampleConfig_def ToLower_S3 TypeOf_Elem_def
        BadRequest_def)

text \<open>
  C2. The claim: the handle built for provider \<^verbatim>\<open>s3\<close> holds the configuration's
  bucket, region, credentials, timeout, debug flag, public-read flag and async
  flag. For a configuration with timeout 30 and the debug and async flags set,
  the handle returned has timeout 0 and both flags unset: the S3 constructor
  does not copy these three fields, which the other two constructors do copy.
\<close>

theorem C2_s3_handle_drops_timeout_debug_async:
  "BridgeConfig.DefaultTimeout exampleConfig = 30 \<and>
   BridgeConfig.EnableDebug exampleConfig \<and>
   BridgeConfig.UseAsync exampleConfig \<and>
   NewRainbowBridge examplePkg exampleWorld (Some exampleConfig) =
     (Inr (S3 \<lparr>SimpleStorageService.Provider = ''Simple Storage Service'',
               SimpleStorageService.DefaultBucket = ''assets'',
               SimpleStorageService.Region = ''us-east-1'',
               SimpleStorageService.AccessKey = ''A'',
               SimpleStorageService.SecretKey = ''B'',
               SimpleStorageService.DefaultTimeout = 0,
               SimpleStorageService.EnableDebug = False,
               SimpleStorageService.PublicRead = True,
               SimpleStorageService.UseAsync = False,
               SimpleStorageService.Client = Some (NewFromConfig (AwsConfig 0))\<rparr>),
      [CallLoadDefaultConfig [WithCredentialsProvider ''A'' ''B'' [], WithRegion ''us-east-1'']])"
  by (simp add: NewRainbowBridge_def newSimpleStorageService_def examplePkg_def exampleConfig_def
        exampleWorld_def ToLower_s3 TypeOf_Elem_def index_def)

text \<open>
  C7. Each step of the validation of \<open>NewRainbowBridge\<close> ends the call: a nil
  configuration, a type name other than the expected one, an empty identifier, and
  an identifier whose lower-cased form is not a key of the registry each return
  an error of kind \<^verbatim>\<open>BadRequest\<close> and no handle, with an empty trace: no
  constructor has run. The type that \<^verbatim>\<open>reflect\<close> reports for a \<^verbatim>\<open>*BridgeConfig\<close> is
  always the struct \<^verbatim>\<open>BridgeConfig\<close>, so the shape check fails exactly when the
  expected name differs from it.
\<close>

theorem C7_validation_terminal:
  "NewRainbowBridge pk w None =
     (Inl \<lparr>Err = Errorf ''config is nil'', ErrorCode = ErrBadRequest\<rparr>, []) \<and>
   (bridgeConfigType pk \<noteq> ''BridgeConfig'' \<longrightarrow>
      NewRainbowBridge pk w (Some bc) =
        (Inl \<lparr>Err = Errorf ''invalid config type: BridgeConfig'', ErrorCode = ErrBadRequest\<rparr>, [])) \<and>
   (bridgeConfigType pk = ''BridgeConfig'' \<and> BridgeConfig.Provider bc = [] \<longrightarrow>
      NewRainbowBridge pk w (Some bc) =
        (Inl \<lparr>Err = Errorf ''no provider specified'', ErrorCode = ErrBadRequest\<rparr>, [])) \<and>
   (bridgeConfigType pk = ''BridgeConfig'' \<and> BridgeConfig.Provider bc \<noteq> [] \<and>
    providers pk (ToLower (BridgeConfig.Provider bc)) = None \<longrightarrow>
      NewRainbowBridge pk w (Some bc) =
        (Inl \<lparr>Err = Errorf (''invalid provider: '' @ BridgeConfig.Provider bc),
              ErrorCode = ErrBadRequest\<rparr>, [])) \<and>
   (bc' = None \<or> bridgeConfigType pk \<noteq> ''BridgeConfig'' \<or>
    (\<exists>c. bc' = Some c \<and> (BridgeConfig.Provider c = [] \<or>
          providers pk (ToLower (BridgeConfig.Provider c)) = None)) \<longrightarrow>
      (\<exists>e. NewRainbowBridge pk w bc' = (Inl e, []) \<and> ErrorCode e = ErrBadRequest))"
  by (auto simp add: NewRainbowBridge_def BadRequest_def TypeOf_Elem_def Sprintf_config_type
        Sprintf_invalid_provider simp del: Sprintf.simps split: option.splits)

theorem C7_validation_terminal_witness:
  "NewRainbowBridge examplePkg exampleWorld None =
     (Inl \<lparr>Err = Errorf ''config is nil'', ErrorCode = ErrBadRequest\<rparr>, []) \<and>
   bridgeConfigType (examplePkg\<lparr>bridgeConfigType := ''Config''\<rparr>) \<noteq> ''BridgeConfig'' \<and>
   NewRainbowBridge (examplePkg\<lparr>bridgeConfigType := ''Config''\<rparr>) exampleWorld (Some exampleConfig) =
     (Inl \<lparr>Err = Errorf ''invalid config type: BridgeConfig'', ErrorCode = ErrBadRequest\<rparr>, []) \<and>
   bridgeConfigType examplePkg = ''BridgeConfig'' \<and>
   NewRainbowBridge examplePkg exampleWorld (Some (exampleConfig\<lparr>BridgeConfig.Provider := []\<rparr>)) =
     (Inl \<lparr>Err = Errorf ''no provider specified'', ErrorCode = ErrBadRequest\<rparr>, []) \<and>
   providers examplePkg (ToLower ''azure'') = None \<and>
   NewRainbowBridge examplePkg exampleWorld (Some (exampleConfig\<lparr>BridgeConfig.Provider := ''azure''\<rparr>)) =
     (Inl \<lparr>Err = Errorf ''invalid provider: azure'', ErrorCode = ErrBadRequest\<rparr>, [])"
  using
    C7_validation_terminal [where pk = examplePkg and w = exampleWorld
      and bc = "exampleConfig\<lparr>BridgeConfig.Provider := []\<rparr>" and bc' = None]
    C7_validation_terminal [where pk = "examplePkg\<lparr>bridgeConfigType := ''Config''\<rparr>"
      and w = exampleWorld and bc = exampleConfig and bc' = None]
    C7_validation_terminal [where pk = examplePkg and w = exampleWorld
      and bc = "exampleConfig\<lparr>BridgeConfig.Provider := ''azure''\<rparr>" and bc' = None]
  by (simp add: examplePkg_def exampleConfig_def ToLower_azure)



subsection \<open>Disconnecting\<close>

text \<open>
  C9. \<open>Disconnect\<close> returns a nil error, the first time and the second; the handle
  is not connected after either call, and the second call changes nothing. \<open>IsConnected\<close>
  is a function of the handle alone, true exactly when the client is not nil.
\<close>

theorem C9_disconnect_idempotent:
  "snd (Disconnect s) = None \<and>
   \<not> IsConnected (fst (Disconnect s)) \<and>
   snd (Disconnect (fst (Disconnect s))) = None \<and>
   \<not> IsConnected (fst (Disconnect (fst (Disconnect s)))) \<and>
   fst (Disconnect (fst (Disconnect s))) = fst (Disconnect s) \<and>
   (IsConnected s \<longleftrightarrow> SimpleStorageService.Client s \<noteq> None)"
  by (simp add: Disconnect_def IsConnected_def)

text \<open>
  C3, as stated: after \<open>Disconnect\<close>, \<open>UploadFolder\<close> returns an error of kind
  \<^verbatim>\<open>ClientError\<close>. It does not: \<open>UploadFolder\<close> returns no error on any handle.
\<close>

theorem C3_upload_folder_counterexample:
  "\<not> (\<forall>s path options. \<exists>e. snd (UploadFolder (fst (Disconnect s)) path options) = Some e
        \<and> ErrorCode e = ErrClientError)"
  by (simp add: UploadFolder_def)

text \<open>
  C3, amended: on every handle on which \<open>Disconnect\<close> has been called, \<open>UploadFile\<close>
  returns the error of kind \<^verbatim>\<open>ClientError\<close> without touching the outside.
  \<open>UploadFolder\<close>, which is not implemented, returns no result and no error on
  every handle, connected or not, and so also after \<open>Disconnect\<close>.
\<close>

theorem C3_upload_after_disconnect:
  "UploadFile pk w (fst (Disconnect s)) path filename options =
     (Inl \<lparr>Err = Errorf ''no active S3 client'', ErrorCode = ErrClientError\<rparr>, []) \<and>
   UploadFolder s path options = ([], None) \<and>
   UploadFolder (fst (Disconnect s)) path options = ([], None)"
  by (simp add: UploadFile_disconnected Disconnect_def IsConnected_def UploadFolder_def)

subsection \<open>Uploading\<close>

text \<open>
  C4. The preconditions of \<open>UploadFile\<close> are checked in order. On a handle that is
  not connected the result is \<^verbatim>\<open>ClientError\<close> and the trace is empty: no file
  system access, no network call. On a connected handle and a path that does not
  exist the result is \<^verbatim>\<open>BadRequest\<close> and the trace holds the one \<^verbatim>\<open>os.Stat\<close>: no
  network call. On a connected handle and a path that exists and cannot be
  opened the result is \<^verbatim>\<open>FileOperationFailed\<close> with the error of \<^verbatim>\<open>os.Open\<close>.
\<close>

theorem C4_upload_precondition_order:
  "(\<not> IsConnected s \<longrightarrow>
      UploadFile pk w s path filename options =
        (Inl \<lparr>Err = Errorf ''no active S3 client'', ErrorCode = ErrClientError\<rparr>, [])) \<and>
   (IsConnected s \<and> IsNotExist (Stat w path) \<longrightarrow>
      UploadFile pk w s path filename options =
        (Inl \<lparr>Err = Errorf (''file does not exist: '' @ path), ErrorCode = ErrBadRequest\<rparr>,
         [OsStat path])) \<and>
   (IsConnected s \<and> Stat w path = None \<and> Open w path = Inl err \<longrightarrow>
      UploadFile pk w s path filename options =
        (Inl \<lparr>Err = err, ErrorCode = ErrFileOperationFailed\<rparr>, [OsStat path, OsOpen path]))"
  by (simp add: UploadFile_disconnected UploadFile_not_exist UploadFile_open_failed)

theorem C4_upload_precondition_order_witness:
  "\<not> IsConnected (fst (Disconnect exampleHandle)) \<and>
   UploadFile examplePkg exampleWorld (fst (Disconnect exampleHandle)) ''/tmp/photo.png''
       ''photo.png'' [] =
     (Inl \<lparr>Err = Errorf ''no active S3 client'', ErrorCode = ErrClientError\<rparr>, []) \<and>
   IsConnected exampleHandle \<and>
   IsNotExist (Stat exampleWorld ''/tmp/missing.png'') \<and>
   UploadFile examplePkg exampleWorld exampleHandle ''/tmp/missing.png'' ''photo.png'' [] =
     (Inl \<lparr>Err = Errorf ''file does not exist: /tmp/missing.png'', ErrorCode = ErrBadRequest\<rparr>,
      [OsStat ''/tmp/missing.png'']) \<and>
   Stat exampleWorld ''/tmp/locked.png'' = None \<and>
   Open exampleWorld ''/tmp/locked.png'' = Inl (PathError ''open'' ''/tmp/locked.png'' EACCES) \<and>
   UploadFile examplePkg exampleWorld exampleHandle ''/tmp/locked.png'' ''photo.png'' [] =
     (Inl \<lparr>Err = PathError ''open'' ''/tmp/locked.png'' EACCES,
           ErrorCode = ErrFileOperationFailed\<rparr>,
      [OsStat ''/tmp/locked.png'', OsOpen ''/tmp/locked.png''])"
  using
    C4_upload_precondition_order [where s = "fst (Disconnect exampleHandle)" and pk = examplePkg
      and w = exampleWorld and path = "''/tmp/photo.png''" and filename = "''photo.png''"
      and options = "[]"]
    C4_upload_precondition_order [where s = exampleHandle and pk = examplePkg
      and w = exampleWorld and path = "''/tmp/missing.png''" and filename = "''photo.png''"
      and options = "[]"]
    C4_upload_precondition_order [where s = exampleHandle and pk = examplePkg
      and w = exampleWorld and path = "''/tmp/locked.png''" and filename = "''photo.png''"
      and options = "[]" and err = "PathError ''open'' ''/tmp/locked.png'' EACCES"]
  by (simp add: exampleHandle_def exampleWorld_def IsConnected_def Disconnect_def)

text \<open>
  C5. \<open>UploadFile\<close> returns an \<^verbatim>\<open>UploadedFile\<close> exactly when the handle is connected,
  the path is not reported missing, the file opens, \<^verbatim>\<open>PutObject\<close> succeeds and
  \<^verbatim>\<open>HeadObject\<close> succeeds. The result then has the given key as name, the handle's
  bucket, the given path, the size that \<^verbatim>\<open>HeadObject\<close> reports, and the preview
  \<^verbatim>\<open>https://{bucket}.s3.{region}.amazonaws.com/{key}\<close>. When \<^verbatim>\<open>PutObject\<close> fails, or
  \<^verbatim>\<open>HeadObject\<close> fails after it, the result is that error with kind
  \<^verbatim>\<open>FileOperationFailed\<close> and no \<^verbatim>\<open>UploadedFile\<close>.
\<close>

theorem C5_upload_no_partial_success:
  "((\<exists>uf. fst (UploadFile pk w s path filename options) = Inr uf) \<longleftrightarrow>
     (IsConnected s \<and> \<not> IsNotExist (Stat w path) \<and>
      (\<exists>fd. Open w path = Inr fd \<and>
         PutObject w (the (SimpleStorageService.Client s)) (uploadContext s)
           (putObjectInput pk s fd filename options) = Inr () \<and>
         (\<exists>obj. HeadObject w (the (SimpleStorageService.Client s)) (uploadContext s)
            \<lparr>HeadObjectInput.Bucket = SimpleStorageService.DefaultBucket s,
             HeadObjectInput.Key = filename\<rparr> = Inr obj)))) \<and>
   (IsConnected s \<and> \<not> IsNotExist (Stat w path) \<and> Open w path = Inr fd \<longrightarrow>
      (PutObject w (the (SimpleStorageService.Client s)) (uploadContext s)
         (putObjectInput pk s fd filename options) = Inr () \<and>
       HeadObject w (the (SimpleStorageService.Client s)) (uploadContext s)
         \<lparr>HeadObjectInput.Bucket = SimpleStorageService.DefaultBucket s,
          HeadObjectInput.Key = filename\<rparr> = Inr obj \<longrightarrow>
         fst (UploadFile pk w s path filename options) =
           Inr \<lparr>UploadedFile.Name = filename,
                UploadedFile.Bucket = SimpleStorageService.DefaultBucket s,
                Path = path,
                Preview = ''https://'' @ SimpleStorageService.DefaultBucket s @ ''.s3.'' @
                          SimpleStorageService.Region s @ ''.amazonaws.com/'' @ filename,
                Size = ContentLength obj,
                ProviderObject = obj\<rparr>) \<and>
      (PutObject w (the (SimpleStorageService.Client s)) (uploadContext s)
         (putObjectInput pk s fd filename options) = Inl err \<longrightarrow>
         fst (UploadFile pk w s path filename options) =
           Inl \<lparr>Err = err, ErrorCode = ErrFileOperationFailed\<rparr>) \<and>
      (PutObject w (the (SimpleStorageService.Client s)) (uploadContext s)
         (putObjectInput pk s fd filename options) = Inr () \<and>
       HeadObject w (the (SimpleStorageService.Client s)) (uploadContext s)
         \<lparr>HeadObjectInput.Bucket = SimpleStorageService.DefaultBucket s,
          HeadObjectInput.Key = filename\<rparr> = Inl err \<longrightarrow>
         fst (UploadFile pk w s path filename options) =
           Inl \<lparr>Err = err, ErrorCode = ErrFileOperationFailed\<rparr>))"
proof -
  have "IsConnected s \<Longrightarrow> \<not> IsNotExist (Stat w path) \<Longrightarrow> Open w path = Inr fd \<Longrightarrow>
        PutObject w (the (SimpleStorageService.Client s)) (uploadContext s)
          (putObjectInput pk s fd filename options) = Inr () \<Longrightarrow>
        HeadObject w (the (SimpleStorageService.Client s)) (uploadContext s)
          \<lparr>HeadObjectInput.Bucket = SimpleStorageService.DefaultBucket s,
           HeadObjectInput.Key = filename\<rparr> = Inr obj \<Longrightarrow>
        fst (UploadFile pk w s path filename options) =
           Inr \<lparr>UploadedFile.Name = filename,
                UploadedFile.Bucket = SimpleStorageService.DefaultBucket s,
                Path = path,
                Preview = ''https://'' @ SimpleStorageService.DefaultBucket s @ ''.s3.'' @
                          SimpleStorageService.Region s @ ''.amazonaws.com/'' @ filename,
                Size = ContentLength obj,
                ProviderObject = obj\<rparr>"
    by (simp add: UploadFile_uploaded)
  moreover
  have "IsConnected s \<Longrightarrow> \<not> IsNotExist (Stat w path) \<Longrightarrow> Open w path = Inr fd \<Longrightarrow>
        PutObject w (the (SimpleStorageService.Client s)) (uploadContext s)
          (putObjectInput pk s fd filename options) = Inl err \<Longrightarrow>
        fst (UploadFile pk w s path filename options) =
           Inl \<lparr>Err = err, ErrorCode = ErrFileOperationFailed\<rparr>"
    by (simp add: UploadFile_put_failed)
  moreover
  have "IsConnected s \<Longrightarrow> \<not> IsNotExist (Stat w path) \<Longrightarrow> Open w path = Inr fd \<Longrightarrow>
        PutObject w (the (SimpleStorageService.Client s)) (uploadContext s)
          (putObjectInput pk s fd filename options) = Inr () \<Longrightarrow>
        HeadObject w (the (SimpleStorageService.Client s)) (uploadContext s)
          \<lparr>HeadObjectInput.Bucket = SimpleStorageService.DefaultBucket s,
           HeadObjectInput.Key = filename\<rparr> = Inl err \<Longrightarrow>
        fst (UploadFile pk w s path filename options) =
           Inl \<lparr>Err = err, ErrorCode = ErrFileOperationFailed\<rparr>"
    by (simp add: UploadFile_head_failed)
  ultimately show ?thesis
    using UploadFile_result_cases [where pk = pk and w = w and s = s and path = path
        and filename = filename and options = options]
    by blast
qed

theorem C5_upload_no_partial_success_witness:
  "IsConnected exampleHandle \<and>
   \<not> IsNotExist (Stat exampleWorld ''/tmp/photo.png'') \<and>
   Open exampleWorld ''/tmp/photo.png'' = Inr (Fd 3) \<and>
   PutObject exampleWorld (the (SimpleStorageService.Client exampleHandle))
     (uploadContext exampleHandle)
     (putObjectInput examplePkg exampleHandle (Fd 3) ''photo.png'' []) = Inr () \<and>
   HeadObject exampleWorld (the (SimpleStorageService.Client exampleHandle))
     (uploadContext exampleHandle)
     \<lparr>HeadObjectInput.Bucket = SimpleStorageService.DefaultBucket exampleHandle,
      HeadObjectInput.Key = ''photo.png''\<rparr> = Inr \<lparr>ContentLength = 1024\<rparr> \<and>
   fst (UploadFile examplePkg exampleWorld exampleHandle ''/tmp/photo.png'' ''photo.png'' []) =
     Inr \<lparr>UploadedFile.Name = ''photo.png'',
          UploadedFile.Bucket = ''assets'',
          Path = ''/tmp/photo.png'',
          Preview = ''https://assets.s3.us-east-1.amazonaws.com/photo.png'',
          Size = 1024,
          ProviderObject = \<lparr>ContentLength = 1024\<rparr>\<rparr>"
  using
    C5_upload_no_partial_success [where pk = examplePkg and w = exampleWorld and s = exampleHandle
      and path = "''/tmp/photo.png''" and filename = "''photo.png''" and options = "[]"
      and fd = "Fd 3" and obj = "\<lparr>ContentLength = 1024\<rparr>"]
  by (simp add: exampleHandle_def exampleWorld_def IsConnected_def)

text \<open>
  C6. The access-control grant of the request: for an options map (each key once,
  in whatever order the loop visits it), it is \<^verbatim>\<open>public-read\<close> or \<^verbatim>\<open>private\<close> when
  the access-control option holds that string, and the handle's default
  otherwise (\<^verbatim>\<open>public-read\<close> when the handle's flag is set, none when it is not).
  An entry with an unrecognised key, or with a recognised key and a value of the
  wrong dynamic type, changes nothing: the request and the whole outcome of
  \<open>UploadFile\<close> are those of the options without that entry. The three option keys
  are the cases of one Go \<^verbatim>\<open>switch\<close>, which are distinct constants.
\<close>

theorem C6_option_resolution:
  "(distinct (map fst options) \<longrightarrow>
      ACL (putObjectInput pk s fd filename options) =
        (case map_of options (OptACL pk) of
           Some (Str a) \<Rightarrow>
             if a = ACLPublicRead then ObjectCannedACLPublicRead
             else if a = ACLPrivate then ObjectCannedACLPrivate
             else if SimpleStorageService.PublicRead s then ObjectCannedACLPublicRead else []
         | _ \<Rightarrow> if SimpleStorageService.PublicRead s then ObjectCannedACLPublicRead else [])) \<and>
   (distinct [OptACL pk, OptContentType pk, OptMetadata pk] \<and>
    (k \<notin> {OptACL pk, OptContentType pk, OptMetadata pk} \<or>
     (k = OptACL pk \<or> k = OptContentType pk) \<and> (\<forall>a. v \<noteq> Str a) \<or>
     k = OptMetadata pk \<and> (\<forall>m. v \<noteq> StrMap m)) \<longrightarrow>
      applyOption pk (k, v) params = params \<and>
      putObjectInput pk s fd filename (xs @ (k, v) # ys) =
        putObjectInput pk s fd filename (xs @ ys) \<and>
      UploadFile pk w s path filename (xs @ (k, v) # ys) =
        UploadFile pk w s path filename (xs @ ys))"
proof (intro conjI impI)
  assume "distinct (map fst options)"
  then show "ACL (putObjectInput pk s fd filename options) =
        (case map_of options (OptACL pk) of
           Some (Str a) \<Rightarrow>
             if a = ACLPublicRead then ObjectCannedACLPublicRead
             else if a = ACLPrivate then ObjectCannedACLPrivate
             else if SimpleStorageService.PublicRead s then ObjectCannedACLPublicRead else []
         | _ \<Rightarrow> if SimpleStorageService.PublicRead s then ObjectCannedACLPublicRead else [])"
    by (simp add: putObjectInput_def Let_def ACL_fold split: option.splits any.splits)
next
  assume h: "distinct [OptACL pk, OptContentType pk, OptMetadata pk] \<and>
    (k \<notin> {OptACL pk, OptContentType pk, OptMetadata pk} \<or>
     (k = OptACL pk \<or> k = OptContentType pk) \<and> (\<forall>a. v \<noteq> Str a) \<or>
     k = OptMetadata pk \<and> (\<forall>m. v \<noteq> StrMap m))"
  then have ign: "\<And>params. applyOption pk (k, v) params = params"
    using applyOption_ignored [of pk k v] by blast
  then have id: "applyOption pk (k, v) = (\<lambda>params. params)"
    by (simp add: fun_eq_iff)
  show "applyOption pk (k, v) params = params"
    by (rule ign)
  show "putObjectInput pk s fd filename (xs @ (k, v) # ys) =
        putObjectInput pk s fd filename (xs @ ys)"
    using id by (rule putObjectInput_ignored)
  show "UploadFile pk w s path filename (xs @ (k, v) # ys) =
        UploadFile pk w s path filename (xs @ ys)"
    by (rule UploadFile_cong_options) (rule putObjectInput_ignored [OF id])
qed

theorem C6_option_resolution_witness:
  "SimpleStorageService.PublicRead exampleHandle \<and>
   ACL (putObjectInput examplePkg exampleHandle (Fd 3) ''photo.png'' [(''acl'', Str ''private'')]) =
     ''private'' \<and>
   \<not> SimpleStorageService.PublicRead (exampleHandle\<lparr>SimpleStorageService.PublicRead := False\<rparr>) \<and>
   ACL (putObjectInput examplePkg (exampleHandle\<lparr>SimpleStorageService.PublicRead := False\<rparr>)
          (Fd 3) ''photo.png'' [(''acl'', Str ''public-read'')]) = ''public-read'' \<and>
   ACL (putObjectInput examplePkg exampleHandle (Fd 3) ''photo.png'' []) = ''public-read'' \<and>
   ACL (putObjectInput examplePkg (exampleHandle\<lparr>SimpleStorageService.PublicRead := False\<rparr>)
          (Fd 3) ''photo.png'' []) = [] \<and>
   UploadFile examplePkg exampleWorld exampleHandle ''/tmp/photo.png'' ''photo.png''
       [(''colour'', Str ''red'')] =
     UploadFile examplePkg exampleWorld exampleHandle ''/tmp/photo.png'' ''photo.png'' [] \<and>
   UploadFile examplePkg exampleWorld exampleHandle ''/tmp/photo.png'' ''photo.png''
       [(''acl'', IntVal 1)] =
     UploadFile examplePkg exampleWorld exampleHandle ''/tmp/photo.png'' ''photo.png'' [] \<and>
   UploadFile examplePkg exampleWorld exampleHandle ''/tmp/photo.png'' ''photo.png''
       [(''metadata'', Str ''private'')] =
     UploadFile examplePkg exampleWorld exampleHandle ''/tmp/photo.png'' ''photo.png'' []"
  using
    C6_option_resolution [where pk = examplePkg and s = exampleHandle and fd = "Fd 3"
      and filename = "''photo.png''" and options = "[(''acl'', Str ''private'')]"
      and w = exampleWorld and path = "''/tmp/photo.png''"
      and k = "''colour''" and v = "Str ''red''" and xs = "[]" and ys = "[]"]
    C6_option_resolution [where pk = examplePkg
      and s = "exampleHandle\<lparr>SimpleStorageService.PublicRead := False\<rparr>" and fd = "Fd 3"
      and filename = "''photo.png''" and options = "[(''acl'', Str ''public-read'')]"
      and w = exampleWorld and path = "''/tmp/photo.png''"
      and k = "''colour''" and v = "Str ''red''" and xs = "[]" and ys = "[]"]
    C6_option_resolution [where pk = examplePkg and s = exampleHandle and fd = "Fd 3"
      and filename = "''photo.png''" and options = "[]"
      and w = exampleWorld and path = "''/tmp/photo.png''"
      and k = "''acl''" and v = "IntVal 1" and xs = "[]" and ys = "[]"]
    C6_option_resolution [where pk = examplePkg
      and s = "exampleHandle\<lparr>SimpleStorageService.PublicRead := False\<rparr>" and fd = "Fd 3"
      and filename = "''photo.png''" and options = "[]"
      and w = exampleWorld and path = "''/tmp/photo.png''"
      and k = "''metadata''" and v = "Str ''private''" and xs = "[]" and ys = "[]"]
    C6_option_resolution [where pk = examplePkg and s = exampleHandle and fd = "Fd 3"
      and filename = "''photo.png''" and options = "[]"
      and w = exampleWorld and path = "''/tmp/photo.png''"
      and k = "''metadata''" and v = "Str ''private''" and xs = "[]" and ys = "[]"]
  by (simp add: examplePkg_def exampleHandle_def ACLPublicRead_def ACLPrivate_def
        ObjectCannedACLPublicRead_def ObjectCannedACLPrivate_def)

text \<open>
  C10. On a connected handle, \<open>UploadFile\<close> returns \<^verbatim>\<open>BadRequest\<close> exactly when
  \<^verbatim>\<open>os.Stat\<close> reports that the path does not exist. When \<^verbatim>\<open>os.Stat\<close> fails for
  another reason, the next event is \<^verbatim>\<open>os.Open\<close>, every error the call returns is of
  kind \<^verbatim>\<open>FileOperationFailed\<close>, and when \<^verbatim>\<open>os.Open\<close> fails the result is its error
  with that kind.
\<close>

theorem C10_stat_other_error:
  "(IsConnected s \<and> Stat w path = Some e \<and> \<not> IsNotExist (Some e) \<longrightarrow>
      (\<forall>be. fst (UploadFile pk w s path filename options) = Inl be \<longrightarrow>
            ErrorCode be = ErrFileOperationFailed) \<and>
      take 2 (snd (UploadFile pk w s path filename options)) = [OsStat path, OsOpen path] \<and>
      (\<forall>err. Open w path = Inl err \<longrightarrow>
         UploadFile pk w s path filename options =
           (Inl \<lparr>Err = err, ErrorCode = ErrFileOperationFailed\<rparr>, [OsStat path, OsOpen path]))) \<and>
   (IsConnected s \<longrightarrow>
      ((\<exists>be. fst (UploadFile pk w s path filename options) = Inl be \<and> ErrorCode be = ErrBadRequest)
         \<longleftrightarrow> IsNotExist (Stat w path)))"
  by (auto simp add: UploadFile_def FileOperationFailed_def BadRequest_def Let_def
      simp del: Sprintf.simps split: sum.splits)

theorem C10_stat_other_error_witness:
  "IsConnected exampleHandle \<and>
   Stat exampleWorld ''/root/private/photo.png'' =
     Some (PathError ''stat'' ''/root/private/photo.png'' EACCES) \<and>
   \<not> IsNotExist (Some (PathError ''stat'' ''/root/private/photo.png'' EACCES)) \<and>
   Open exampleWorld ''/root/private/photo.png'' =
     Inl (PathError ''open'' ''/root/private/photo.png'' EACCES) \<and>
   UploadFile examplePkg exampleWorld exampleHandle ''/root/private/photo.png'' ''photo.png'' [] =
     (Inl \<lparr>Err = PathError ''open'' ''/root/private/photo.png'' EACCES,
           ErrorCode = ErrFileOperationFailed\<rparr>,
      [OsStat ''/root/private/photo.png'', OsOpen ''/root/private/photo.png''])"
  using
    C10_stat_other_error [where pk = examplePkg and w = exampleWorld and s = exampleHandle
      and path = "''/root/private/photo.png''" and filename = "''photo.png''" and options = "[]"
      and e = "PathError ''stat'' ''/root/private/photo.png'' EACCES"]
  by (simp add: exampleHandle_def exampleWorld_def IsConnected_def)

end
